theory Spec2Isabelle
  imports Complex_Main "HOL-Library.Multiset" "HOL-Library.Sublist"
begin

section \<open>Python values\<close>

text \<open>
  The scalars that \<^verbatim>\<open>cpi.py\<close> handles. A \<^verbatim>\<open>datetime.date\<close> carries year, month and
  day; a \<^verbatim>\<open>datetime.datetime\<close> is a subclass of \<^verbatim>\<open>datetime.date\<close> with a time of day.
  Python only builds such objects with \<open>1 \<le> year \<le> 9999\<close>, a month in \<open>1..12\<close>, a day of
  that month, \<open>hour < 24\<close>, \<open>minute < 60\<close>, \<open>second < 60\<close> and \<open>microsecond < 10\<^sup>6\<close>.
  Python floats are modelled as reals: rounding is not modelled.
  A Python \<^verbatim>\<open>str\<close> is a \<open>string\<close>; the only character the code inspects is the ASCII
  single quote, which is one byte in UTF-8 and part of no longer sequence.
\<close>

record pydate =
  year :: nat
  month :: nat
  day :: nat

record pydatetime =
  date_part :: pydate
  hour :: nat
  minute :: nat
  second :: nat
  microsecond :: nat

datatype pyval =
    PNone
  | PStr string
  | PInt int
  | PFloat real
  | PBool bool
  | PDate pydate
  | PDateTime pydatetime

text \<open>\<^verbatim>\<open>isinstance\<close>: a datetime is also a date, a bool is also an int.\<close>

fun isinstance_str :: "pyval \<Rightarrow> bool" where
  "isinstance_str (PStr s) = True"
| "isinstance_str v = False"

fun isinstance_datetime :: "pyval \<Rightarrow> bool" where
  "isinstance_datetime (PDateTime t) = True"
| "isinstance_datetime v = False"

fun isinstance_date :: "pyval \<Rightarrow> bool" where
  "isinstance_date (PDate d) = True"
| "isinstance_date (PDateTime t) = True"
| "isinstance_date v = False"

fun isinstance_bool :: "pyval \<Rightarrow> bool" where
  "isinstance_bool (PBool b) = True"
| "isinstance_bool v = False"

text \<open>The payload of a value whose class has been tested; the other cases are never read.\<close>

fun str_val :: "pyval \<Rightarrow> string" where
  "str_val (PStr s) = s"
| "str_val v = []"

fun date_val :: "pyval \<Rightarrow> pydate" where
  "date_val (PDate d) = d"
| "date_val (PDateTime t) = date_part t"
| "date_val v = \<lparr>year = 1, month = 1, day = 1\<rparr>"

fun datetime_val :: "pyval \<Rightarrow> pydatetime" where
  "datetime_val (PDateTime t) = t"
| "datetime_val v =
     \<lparr>date_part = date_val v, hour = 0, minute = 0, second = 0, microsecond = 0\<rparr>"

fun bool_val :: "pyval \<Rightarrow> bool" where
  "bool_val (PBool b) = b"
| "bool_val v = False"

subsection \<open>Decimal text\<close>

definition quote :: char where
  "quote = CHR 0x27"

definition digit_char :: "nat \<Rightarrow> char" where
  "digit_char n = ''0123456789'' ! (n mod 10)"

text \<open>A field of fixed width, zero-padded, as \<^verbatim>\<open>%Y\<close>, \<^verbatim>\<open>%m\<close>, \<^verbatim>\<open>%d\<close>, \<^verbatim>\<open>%H\<close>,
  \<^verbatim>\<open>%M\<close>, \<^verbatim>\<open>%S\<close> and \<^verbatim>\<open>%f\<close> print it: the lowest \<open>w\<close> decimal digits of \<open>n\<close>, which
  are all its digits for the fields of a date or datetime object.\<close>

fun zpad :: "nat \<Rightarrow> nat \<Rightarrow> string" where
  "zpad 0 n = []"
| "zpad (Suc w) n = zpad w (n div 10) @ [digit_char n]"

function str_nat :: "nat \<Rightarrow> string" where
  "str_nat n = (if n < 10 then [digit_char n] else str_nat (n div 10) @ [digit_char n])"
  by pat_completeness auto
termination
  by (relation "measure id") auto

declare str_nat.simps [simp del]

text \<open>\<^verbatim>\<open>str\<close> of a Python int.\<close>

definition str_int :: "int \<Rightarrow> string" where
  "str_int i = (if i < 0 then CHR ''-'' # str_nat (nat (- i)) else str_nat (nat i))"

text \<open>\<^verbatim>\<open>strftime("%Y-%m-%d")\<close> and \<^verbatim>\<open>strftime("%Y-%m-%d %H:%M:%S.%f")\<close>.\<close>

definition strftime_date :: "pydate \<Rightarrow> string" where
  "strftime_date d = zpad 4 (year d) @ ''-'' @ zpad 2 (month d) @ ''-'' @ zpad 2 (day d)"

definition strftime_datetime :: "pydatetime \<Rightarrow> string" where
  "strftime_datetime t =
     strftime_date (date_part t) @ '' '' @ zpad 2 (hour t) @ '':'' @ zpad 2 (minute t) @ '':''
       @ zpad 2 (second t) @ ''.'' @ zpad 6 (microsecond t)"

text \<open>\<^verbatim>\<open>str\<close> of a datetime leaves the fraction out when the microsecond is zero.\<close>

definition str_datetime :: "pydatetime \<Rightarrow> string" where
  "str_datetime t =
     strftime_date (date_part t) @ '' '' @ zpad 2 (hour t) @ '':'' @ zpad 2 (minute t) @ '':''
       @ zpad 2 (second t)
       @ (if microsecond t = 0 then [] else ''.'' @ zpad 6 (microsecond t))"

text \<open>
  \<^verbatim>\<open>str(v)\<close>. The text of a float is produced by the Python interpreter, not by this
  repository: it is the parameter \<open>fs\<close>.
\<close>

fun py_str :: "(real \<Rightarrow> string) \<Rightarrow> pyval \<Rightarrow> string" where
  "py_str fs PNone = ''None''"
| "py_str fs (PStr s) = s"
| "py_str fs (PInt i) = str_int i"
| "py_str fs (PFloat x) = fs x"
| "py_str fs (PBool b) = (if b then ''True'' else ''False'')"
| "py_str fs (PDate d) = strftime_date d"
| "py_str fs (PDateTime t) = str_datetime t"

section \<open>The value encoder\<close>

text \<open>\<^verbatim>\<open>v.replace("'", "''")\<close>\<close>

definition replace_quote :: "string \<Rightarrow> string" where
  "replace_quote s = concat (map (\<lambda>c. if c = quote then [quote, quote] else [c]) s)"

text \<open>
  \<^verbatim>\<open>sqlize\<close>: the chain of \<^verbatim>\<open>isinstance\<close> tests in the order of the source rebinds
  \<^verbatim>\<open>v\<close>; the last line wraps a \<^verbatim>\<open>str\<close> in single quotes and prints anything else
  with \<^verbatim>\<open>str\<close>.
\<close>

definition sqlize_rebind :: "pyval \<Rightarrow> pyval" where
  "sqlize_rebind v =
     (if isinstance_str v then PStr (replace_quote (str_val v))
      else if isinstance_datetime v then PStr (strftime_datetime (datetime_val v))
      else if isinstance_date v then PStr (strftime_date (date_val v))
      else if isinstance_bool v then PInt (if bool_val v then 1 else 0)
      else v)"

definition sqlize :: "(real \<Rightarrow> string) \<Rightarrow> pyval \<Rightarrow> string" where
  "sqlize fs v0 =
     (let v = sqlize_rebind v0
      in if isinstance_str v then [quote] @ str_val v @ [quote] else py_str fs v)"


definition is_digit :: "char \<Rightarrow> bool" where
  "is_digit c = (c \<in> set ''0123456789'')"


section \<open>The relational backend\<close>

text \<open>
  The store is one SQLite table, \<^verbatim>\<open>Observation\<close>, with the columns \<^verbatim>\<open>Date\<close>,
  \<^verbatim>\<open>Item\<close>, \<^verbatim>\<open>Price\<close>, \<^verbatim>\<open>Category\<close>, \<^verbatim>\<open>State\<close>, \<^verbatim>\<open>City\<close> and
  \<^verbatim>\<open>AddedOn datetime default current_timestamp\<close>. SQLite is not part of the repository;
  this section models what it does with the statements that \<^verbatim>\<open>cpi.py\<close> sends:
  \<^item> a table is the list of its rows in rowid order, and an insert appends (the new rowid
    is the largest one plus one); the database is \<open>None\<close> while the table does not exist;
  \<^item> a cell is a text or a number; \<^verbatim>\<open>AddedOn\<close> is kept as the clock reading (in seconds)
    that \<^verbatim>\<open>current_timestamp\<close> printed, whose text order is the order of time;
  \<^item> how SQLite reads a numeric literal is the parameter \<open>rd\<close>;
  \<^item> values are compared as they are stored: the conversions of SQLite's column
    affinity are not modelled, and \<^verbatim>\<open>rowid\<close> is not a column name of the model.
\<close>

datatype sqlval = SText string | SNum real | STime nat

record row =
  col_Date :: sqlval
  col_Item :: sqlval
  col_Price :: sqlval
  col_Category :: sqlval
  col_State :: sqlval
  col_City :: sqlval
  col_AddedOn :: nat

type_synonym db = "row list option"

datatype sql_error = SyntaxError | NoSuchTable | NoSuchColumn

datatype error = OperationalError sql_error | KeyError string

text \<open>The characters after the opening quote of a text literal: a doubled quote is one
  quote of the text, a single quote ends the literal and must end the token.\<close>

fun sql_text :: "string \<Rightarrow> string option" where
  "sql_text [] = None"
| "sql_text [c] = (if c = quote then Some [] else None)"
| "sql_text (c # c' # cs) =
     (if c = quote
      then (if c' = quote then map_option ((#) quote) (sql_text cs) else None)
      else map_option ((#) c) (sql_text (c' # cs)))"

text \<open>The tokenizer looks at the first character: a quote starts a text literal, a digit,
  a point or a sign a number; anything else (\<^verbatim>\<open>None\<close>, \<^verbatim>\<open>nan\<close>) is an identifier, which
  names no column.\<close>

definition sql_literal :: "(string \<Rightarrow> real option) \<Rightarrow> string \<Rightarrow> sqlval option" where
  "sql_literal rd s =
     (case s of
        [] \<Rightarrow> None
      | c # cs \<Rightarrow>
          if c = quote then map_option SText (sql_text cs)
          else if c \<in> set ''0123456789.+-'' then map_option SNum (rd s)
          else None)"

definition lower_char :: "char \<Rightarrow> char" where
  "lower_char c =
     (case map_of (zip ''ABCDEFGHIJKLMNOPQRSTUVWXYZ'' ''abcdefghijklmnopqrstuvwxyz'') c of
        None \<Rightarrow> c | Some l \<Rightarrow> l)"

definition upper_char :: "char \<Rightarrow> char" where
  "upper_char c =
     (case map_of (zip ''abcdefghijklmnopqrstuvwxyz'' ''ABCDEFGHIJKLMNOPQRSTUVWXYZ'') c of
        None \<Rightarrow> c | Some u \<Rightarrow> u)"

text \<open>Column names are matched without regard to case.\<close>

definition column :: "string \<Rightarrow> (row \<Rightarrow> sqlval) option" where
  "column name =
     (let n = map lower_char name
      in if n = ''date'' then Some col_Date
         else if n = ''item'' then Some col_Item
         else if n = ''price'' then Some col_Price
         else if n = ''category'' then Some col_Category
         else if n = ''state'' then Some col_State
         else if n = ''city'' then Some col_City
         else if n = ''addedon'' then Some (\<lambda>r. STime (col_AddedOn r))
         else None)"

text \<open>One condition \<^verbatim>\<open>Column=literal\<close>, and the conjunction of a list of them.\<close>

definition condition :: "(string \<Rightarrow> real option) \<Rightarrow> string \<times> string \<Rightarrow> (row \<Rightarrow> bool) option" where
  "condition rd kl =
     (case column (fst kl) of
        None \<Rightarrow> None
      | Some f \<Rightarrow> (case sql_literal rd (snd kl) of None \<Rightarrow> None | Some x \<Rightarrow> Some (\<lambda>r. f r = x)))"

definition where_clause ::
  "(string \<Rightarrow> real option) \<Rightarrow> (string \<times> string) list \<Rightarrow> (row \<Rightarrow> bool) option" where
  "where_clause rd conds =
     map_option (\<lambda>ps r. list_all (\<lambda>p. p r) ps) (those (map (condition rd) conds))"

text \<open>\<^verbatim>\<open>rowid in (SELECT rowid ... WHERE c LIMIT n)\<close>: the scan runs in rowid order and stops
  after \<open>n\<close> matches; a negative limit is no limit.\<close>

fun delete_limit :: "int \<Rightarrow> (row \<Rightarrow> bool) \<Rightarrow> row list \<Rightarrow> row list" where
  "delete_limit n P [] = []"
| "delete_limit n P (r # rs) =
     (if P r \<and> n \<noteq> 0 then delete_limit (n - 1) P rs else r # delete_limit n P rs)"

text \<open>
  \<^verbatim>\<open>DELETE from Observation WHERE rowid in (SELECT rowid FROM Observation WHERE <conds>
  LIMIT <n>)\<close>, where \<^verbatim>\<open><conds>\<close> is the conditions joined by \<^verbatim>\<open>" AND "\<close>. With no condition
  the text is \<^verbatim>\<open>WHERE  LIMIT n\<close>, which is not SQL. A statement returns the new database
  and the exception it raised, if any; a failed statement changes nothing.
\<close>

definition exec_delete ::
  "(string \<Rightarrow> real option) \<Rightarrow> (string \<times> string) list \<Rightarrow> int \<Rightarrow> db \<Rightarrow> db \<times> error option" where
  "exec_delete rd conds n d =
     (if conds = [] then (d, Some (OperationalError SyntaxError))
      else case d of
        None \<Rightarrow> (d, Some (OperationalError NoSuchTable))
      | Some rows \<Rightarrow>
          (case where_clause rd conds of
             None \<Rightarrow> (d, Some (OperationalError NoSuchColumn))
           | Some P \<Rightarrow> (Some (delete_limit n P rows), None)))"

text \<open>
  \<^verbatim>\<open>INSERT INTO Observation (Date, Item, Price, Category, State, City) values (...)\<close> with
  the six literals in this order. The statement does not name \<^verbatim>\<open>AddedOn\<close>: the column
  takes its default, the clock reading \<open>now\<close>.
\<close>

definition exec_insert ::
  "(string \<Rightarrow> real option) \<Rightarrow> nat \<Rightarrow> string list \<Rightarrow> db \<Rightarrow> db \<times> error option" where
  "exec_insert rd now lits d =
     (case d of
        None \<Rightarrow> (d, Some (OperationalError NoSuchTable))
      | Some rows \<Rightarrow>
          (case those (map (sql_literal rd) lits) of
             Some [dt, it, pr, ca, st, ci] \<Rightarrow>
               (Some (rows @ [\<lparr>col_Date = dt, col_Item = it, col_Price = pr, col_Category = ca,
                                col_State = st, col_City = ci, col_AddedOn = now\<rparr>]), None)
           | _ \<Rightarrow> (d, Some (OperationalError NoSuchColumn))))"

section \<open>The class Observation\<close>

record observation =
  Date :: "pydate option"
  Item :: "string option"
  Price :: "real option"
  Category :: "string option"
  State :: "string option"
  City :: "string option"
  AddedOn :: pydatetime

text \<open>The class attributes that hold the vocabulary. A dict is the list of its items in
  insertion order.\<close>

record vocab =
  category_item_map :: "(string \<times> string list) list"
  state_city_map :: "(string \<times> string list) list"
  item_base_price :: "(string \<times> real) list"
  state_price_mu_std :: "(string \<times> real \<times> real) list"

definition Observation_vocab :: vocab where
  "Observation_vocab =
     \<lparr>category_item_map =
        [(''Food'', [''USDA Grade-A eggs, Dozen'']),
         (''Fuel'', [''Regular Gasoline, Gallon'']),
         (''Clothing'', [''Wool Socks, Pair''])],
      state_city_map =
        [(''California'', [''Los Angelos'', ''San Francisco'']),
         (''New York'', [''New York City'']),
         (''Texas'', [''Austin'', ''Dallas''])],
      item_base_price =
        [(''USDA Grade-A eggs, Dozen'', 2.99),
         (''Regular Gasoline, Gallon'', 4.65),
         (''Wool Socks, Pair'', 21.95)],
      state_price_mu_std =
        [(''California'', (1.5, 0.15)),
         (''New York'', (1.75, 0.25)),
         (''Texas'', (1, 0.10))]\<rparr>"

text \<open>A field that may be \<^verbatim>\<open>None\<close>, as a Python value.\<close>

definition py_opt :: "('a \<Rightarrow> pyval) \<Rightarrow> 'a option \<Rightarrow> pyval" where
  "py_opt f x = (case x of None \<Rightarrow> PNone | Some y \<Rightarrow> f y)"

text \<open>
  \<^verbatim>\<open>write\<close>. In the source the line \<^verbatim>\<open>if "None" not in row:\<close> is followed by the
  construction of the statement and by \<^verbatim>\<open>con.execute(sql)\<close> at the indentation of the
  \<^verbatim>\<open>if\<close> itself, so that the \<^verbatim>\<open>if\<close> has no body and Python does not accept the
  module. The model reads both statements as the body of the \<^verbatim>\<open>if\<close>, which is what
  \<^verbatim>\<open>test_dont_save_if_None_value_is_submitted\<close> expects. When no field is \<^verbatim>\<open>None\<close>
  the guard holds and the reading makes no difference.
\<close>

definition "write" ::
  "(real \<Rightarrow> string) \<Rightarrow> (string \<Rightarrow> real option) \<Rightarrow> nat \<Rightarrow> observation \<Rightarrow> db \<Rightarrow> db \<times> error option" where
  "write fs rd now self d =
     (let row = map (sqlize fs)
                  [py_opt PDate (Date self), py_opt PStr (Item self), py_opt PFloat (Price self),
                   py_opt PStr (Category self), py_opt PStr (State self), py_opt PStr (City self)]
      in if ''None'' \<notin> set row then exec_insert rd now row d else (d, None))"

text \<open>\<^verbatim>\<open>table_df\<close>: \<^verbatim>\<open>select * from Observation\<close> gives the rows in rowid order with the
  index \<open>0, 1, ...\<close>, and \<^verbatim>\<open>sort_index(ascending=False)\<close> reverses them.\<close>

definition table_df :: "db \<Rightarrow> error + row list" where
  "table_df d =
     (case d of None \<Rightarrow> Inl (OperationalError NoSuchTable) | Some rows \<Rightarrow> Inr (rev rows))"

text \<open>\<^verbatim>\<open>k.capitalize()\<close>\<close>

definition capitalize :: "string \<Rightarrow> string" where
  "capitalize k = (case k of [] \<Rightarrow> [] | c # cs \<Rightarrow> upper_char c # map lower_char cs)"

text \<open>\<^verbatim>\<open>delete_matching\<close>; \<^verbatim>\<open>kwargs\<close> is the list of the keyword arguments, and
  \<^verbatim>\<open>order_to_delete_in\<close> is not used by the source.\<close>

definition delete_matching ::
  "(real \<Rightarrow> string) \<Rightarrow> (string \<Rightarrow> real option) \<Rightarrow> int \<Rightarrow> (string \<times> pyval) list \<Rightarrow> db
     \<Rightarrow> db \<times> error option" where
  "delete_matching fs rd n_to_delete kwargs d =
     (let conditions = map (\<lambda>kv. (capitalize (fst kv), sqlize fs (snd kv))) kwargs
      in exec_delete rd conditions n_to_delete d)"



section \<open>The synthetic data\<close>

text \<open>The calendar, for \<^verbatim>\<open>pd.date_range(end=today, periods=10, freq="D")\<close>: the ten days
  that end today, oldest first, each at midnight.\<close>

definition is_leap :: "nat \<Rightarrow> bool" where
  "is_leap y = (y mod 4 = 0 \<and> (y mod 100 \<noteq> 0 \<or> y mod 400 = 0))"

definition days_in_month :: "nat \<Rightarrow> nat \<Rightarrow> nat" where
  "days_in_month y m =
     (if m = 2 then (if is_leap y then 29 else 28)
      else if m = 4 \<or> m = 6 \<or> m = 9 \<or> m = 11 then 30 else 31)"

definition prev_day :: "pydate \<Rightarrow> pydate" where
  "prev_day d =
     (if 1 < day d then d\<lparr>day := day d - 1\<rparr>
      else if 1 < month d
        then \<lparr>year = year d, month = month d - 1, day = days_in_month (year d) (month d - 1)\<rparr>
      else \<lparr>year = year d - 1, month = 12, day = 31\<rparr>)"

fun days_until :: "nat \<Rightarrow> pydate \<Rightarrow> pydate list" where
  "days_until 0 d = []"
| "days_until (Suc n) d = days_until n (prev_day d) @ [d]"

definition midnight :: "pydate \<Rightarrow> pydatetime" where
  "midnight d = \<lparr>date_part = d, hour = 0, minute = 0, second = 0, microsecond = 0\<rparr>"

definition date_range :: "pydate \<Rightarrow> nat \<Rightarrow> pydatetime list" where
  "date_range end_day periods = map midnight (days_until periods end_day)"

text \<open>A row of the data frame, before and after the column \<^verbatim>\<open>Price\<close> exists.\<close>

record combo =
  df_Date :: pydatetime
  df_Category :: string
  df_Item :: string
  df_State :: string
  df_City :: string

record df_row = combo +
  df_Price :: real

definition combos :: "vocab \<Rightarrow> pydate \<Rightarrow> combo list" where
  "combos V today =
     (let dt_range = date_range today 10
      in [\<lparr>df_Date = dt, df_Category = fst ci, df_Item = item, df_State = fst sc, df_City = city\<rparr>.
            ci \<leftarrow> category_item_map V, item \<leftarrow> snd ci,
            sc \<leftarrow> state_city_map V, city \<leftarrow> snd sc,
            dt \<leftarrow> dt_range, i \<leftarrow> [0..<5::nat]])"

text \<open>The row with the new column \<^verbatim>\<open>Price\<close>.\<close>

definition with_price :: "combo \<Rightarrow> real \<Rightarrow> df_row" where
  "with_price s p =
     \<lparr>df_Date = df_Date s, df_Category = df_Category s, df_Item = df_Item s,
      df_State = df_State s, df_City = df_City s, df_Price = p\<rparr>"

text \<open>\<^verbatim>\<open>d[k]\<close> raises \<^verbatim>\<open>KeyError\<close> for a missing key.\<close>

definition subscript :: "(string \<times> 'v) list \<Rightarrow> string \<Rightarrow> error + 'v" where
  "subscript d k = (case map_of d k of None \<Rightarrow> Inl (KeyError k) | Some v \<Rightarrow> Inr v)"

text \<open>\<^verbatim>\<open>df.apply(f, axis=1)\<close> calls \<open>f\<close> on the rows in order and stops at the first
  exception.\<close>

fun df_apply :: "('a \<Rightarrow> error + 'b) \<Rightarrow> 'a list \<Rightarrow> error + 'b list" where
  "df_apply f [] = Inr []"
| "df_apply f (x # xs) =
     (case f x of
        Inl e \<Rightarrow> Inl e
      | Inr y \<Rightarrow> (case df_apply f xs of Inl e \<Rightarrow> Inl e | Inr ys \<Rightarrow> Inr (y # ys)))"

text \<open>\<^verbatim>\<open>random.gauss(mu, sigma)\<close> returns \<^verbatim>\<open>mu + z * sigma\<close>, where \<open>z\<close> is the next
  standard normal variate of the generator.\<close>

definition gauss :: "real \<Rightarrow> real \<Rightarrow> real \<Rightarrow> real" where
  "gauss z mu sigma = mu + z * sigma"

text \<open>
  \<^verbatim>\<open>get_test_data\<close>. \<open>today\<close> is \<^verbatim>\<open>datetime.date.today()\<close> and \<open>z i\<close> is the variate
  drawn for row \<open>i\<close>. The three assignments to \<^verbatim>\<open>df["Price"]\<close> run one after the other
  over the whole frame. For a vocabulary without any combination the frame has no
  column, and what the first assignment does then depends on the version of pandas; the
  model returns the empty frame there.
\<close>

definition get_test_data :: "vocab \<Rightarrow> pydate \<Rightarrow> (nat \<Rightarrow> real) \<Rightarrow> error + df_row list" where
  "get_test_data V today z =
     (case df_apply (\<lambda>s. case subscript (item_base_price V) (df_Item s) of
                            Inl e \<Rightarrow> Inl e
                          | Inr p \<Rightarrow> Inr (with_price s p))
             (combos V today) of
        Inl e \<Rightarrow> Inl e
      | Inr df1 \<Rightarrow>
     (case df_apply (\<lambda>s. case subscript (state_price_mu_std V) (df_State s) of
                            Inl e \<Rightarrow> Inl e
                          | Inr ms \<Rightarrow> Inr (s\<lparr>df_Price := df_Price s * fst ms\<rparr>))
             df1 of
        Inl e \<Rightarrow> Inl e
      | Inr df2 \<Rightarrow>
        df_apply (\<lambda>si. case subscript (state_price_mu_std V) (df_State (fst si)) of
                          Inl e \<Rightarrow> Inl e
                        | Inr ms \<Rightarrow>
                            Inr ((fst si)\<lparr>df_Price :=
                                   gauss (z (snd si)) (df_Price (fst si))
                                     (df_Price (fst si) * snd ms)\<rparr>))
          (zip df2 [0..<length df2])))"

text \<open>
  \<^verbatim>\<open>create_table\<close>: the table is dropped if it exists and created again, then the test
  data are appended by \<^verbatim>\<open>to_sql\<close>. The frame has no column \<^verbatim>\<open>AddedOn\<close>, so every row
  takes the default; the bulk load is given one clock reading. A timestamp is stored as
  the text of its \<^verbatim>\<open>str\<close>. If \<^verbatim>\<open>get_test_data\<close> raises, the table has already been
  recreated and stays empty.
\<close>

definition to_sql_row :: "nat \<Rightarrow> df_row \<Rightarrow> row" where
  "to_sql_row now s =
     \<lparr>col_Date = SText (str_datetime (df_Date s)), col_Item = SText (df_Item s),
      col_Price = SNum (df_Price s), col_Category = SText (df_Category s),
      col_State = SText (df_State s), col_City = SText (df_City s), col_AddedOn = now\<rparr>"

text \<open>The cells of a stored row that come from the combination: all but the price and
  the time of the load.\<close>

definition combo_cells :: "row \<Rightarrow> sqlval list" where
  "combo_cells r = [col_Date r, col_Item r, col_Category r, col_State r, col_City r]"

definition create_table ::
  "vocab \<Rightarrow> pydate \<Rightarrow> (nat \<Rightarrow> real) \<Rightarrow> nat \<Rightarrow> db \<Rightarrow> db \<times> error option" where
  "create_table V today z now d =
     (case get_test_data V today z of
        Inl e \<Rightarrow> (Some [], Some e)
      | Inr df \<Rightarrow> (Some (map (to_sql_row now) df), None))"

text \<open>
  The price model in the words of the specification: the base price of the item times
  the scale mean of the state, then a Gaussian draw with that scaled price as mean and
  the scaled price times the scale deviation of the state as standard deviation.
\<close>

definition price_model :: "vocab \<Rightarrow> (nat \<Rightarrow> real) \<Rightarrow> combo \<Rightarrow> nat \<Rightarrow> real" where
  "price_model V z s i =
     (case map_of (item_base_price V) (df_Item s) of
        None \<Rightarrow> 0
      | Some p \<Rightarrow>
          (case map_of (state_price_mu_std V) (df_State s) of
             None \<Rightarrow> 0
           | Some ms \<Rightarrow> gauss (z i) (p * fst ms) (p * fst ms * snd ms)))"

text \<open>The cardinality of the synthetic data that the specification states.\<close>

definition synthetic_cardinality :: "vocab \<Rightarrow> nat" where
  "synthetic_cardinality V =
     sum_list (map (\<lambda>ci. length (snd ci)) (category_item_map V))
       * sum_list (map (\<lambda>sc. length (snd sc)) (state_city_map V)) * 10 * 5"

text \<open>The fixture of the end-to-end example: one category with one item, one state with
  one city, base price 3.00, scale mean 1.0 and scale deviation 0.0.\<close>

definition fixture_vocab :: vocab where
  "fixture_vocab =
     \<lparr>category_item_map = [(''Food'', [''Eggs''])],
      state_city_map = [(''Texas'', [''Dallas''])],
      item_base_price = [(''Eggs'', 3.00)],
      state_price_mu_std = [(''Texas'', (1.0, 0.0))]\<rparr>"

text \<open>The combination a priced row belongs to, and the prices of a result.\<close>

definition combo_of :: "df_row \<Rightarrow> combo" where
  "combo_of r =
     \<lparr>df_Date = df_Date r, df_Category = df_Category r, df_Item = df_Item r,
      df_State = df_State r, df_City = df_City r\<rparr>"

definition prices :: "error + df_row list \<Rightarrow> real list" where
  "prices res = (case res of Inl e \<Rightarrow> [] | Inr df \<Rightarrow> map df_Price df)"

text \<open>A run of the generator in which every variate is \<open>-5\<close>. The Box-Muller
  transform of \<^verbatim>\<open>random.gauss\<close> reaches variates of magnitude up to about 8.5.\<close>

definition low_draws :: "nat \<Rightarrow> real" where
  "low_draws i = - 5"

text \<open>Every item has a base price and every state a price scale.\<close>

definition vocab_complete :: "vocab \<Rightarrow> bool" where
  "vocab_complete V =
     (list_all (\<lambda>ci. list_all (\<lambda>item. item \<in> set (map fst (item_base_price V))) (snd ci))
        (category_item_map V)
      \<and> list_all (\<lambda>sc. fst sc \<in> set (map fst (state_price_mu_std V))) (state_city_map V))"

section \<open>Example inputs\<close>

text \<open>The observation of the repository's tests, saved on 15 January 2024, the texts of
  the two floats that occur in the examples and their reading by the backend, a day and
  a stored row.\<close>

definition example_float_str :: "real \<Rightarrow> string" where
  "example_float_str x = (if x = 3.99 then ''3.99'' else ''0.0'')"

definition example_read_number :: "string \<Rightarrow> real option" where
  "example_read_number s =
     (if s = ''3.99'' then Some 3.99 else if s = ''0.0'' then Some 0 else None)"

definition example_day :: pydate where
  "example_day = \<lparr>year = 2024, month = 1, day = 15\<rparr>"

definition example_observation :: observation where
  "example_observation =
     \<lparr>Date = Some example_day, Item = Some ''Dozen eggs'', Price = Some 3.99,
      Category = Some ''Food'', State = Some ''Texas'', City = Some ''Dallas'',
      AddedOn = midnight \<lparr>year = 2024, month = 1, day = 1\<rparr>\<rparr>"

definition example_row :: row where
  "example_row =
     \<lparr>col_Date = SText ''2024-01-15'', col_Item = SText ''Dozen eggs'', col_Price = SNum 3.99,
      col_Category = SText ''Food'', col_State = SText ''Texas'', col_City = SText ''Dallas'',
      col_AddedOn = 7\<rparr>"

section \<open>Sequences of operations\<close>

datatype operation =
    Write observation
  | Delete_matching int "(string \<times> pyval) list"
  | Create_table vocab pydate "nat \<Rightarrow> real"

text \<open>One call at clock reading \<open>now\<close>; an exception is seen by the caller, and the store
  keeps the state the call left.\<close>

fun step ::
  "(real \<Rightarrow> string) \<Rightarrow> (string \<Rightarrow> real option) \<Rightarrow> nat \<Rightarrow> operation \<Rightarrow> db \<Rightarrow> db" where
  "step fs rd now (Write self) d = fst (write fs rd now self d)"
| "step fs rd now (Delete_matching n kwargs) d = fst (delete_matching fs rd n kwargs d)"
| "step fs rd now (Create_table V today z) d = fst (create_table V today z now d)"

fun run ::
  "(real \<Rightarrow> string) \<Rightarrow> (string \<Rightarrow> real option) \<Rightarrow> (nat \<times> operation) list \<Rightarrow> db \<Rightarrow> db" where
  "run fs rd [] d = d"
| "run fs rd (c # cs) d = run fs rd cs (step fs rd (fst c) (snd c) d)"

definition added_on :: "db \<Rightarrow> nat list" where
  "added_on d = (case d of None \<Rightarrow> [] | Some rows \<Rightarrow> map col_AddedOn rows)"

section \<open>Properties of the value encoder\<close>

lemma is_digit_digit_char: "is_digit (digit_char n)"
proof -
  have "n mod 10 < length ''0123456789''" by simp
  then have "''0123456789'' ! (n mod 10) \<in> set ''0123456789''" by (rule nth_mem)
  then show ?thesis by (simp only: is_digit_def digit_char_def)
qed

lemma quote_not_digit: "\<not> is_digit quote"
  by (simp add: is_digit_def quote_def)

lemma length_zpad: "length (zpad w n) = w"
  by (induction w arbitrary: n) simp_all

lemma zpad_unfold:
  "zpad 2 n = [digit_char (n div 10), digit_char n]"
  "zpad 4 n = [digit_char (n div 10 div 10 div 10), digit_char (n div 10 div 10),
               digit_char (n div 10), digit_char n]"
proof -
  have "zpad (Suc (Suc 0)) n = [digit_char (n div 10), digit_char n]" by simp
  then show "zpad 2 n = [digit_char (n div 10), digit_char n]"
    by (simp only: numeral_2_eq_2)
  have "zpad (Suc (Suc (Suc (Suc 0)))) n
      = [digit_char (n div 10 div 10 div 10), digit_char (n div 10 div 10),
         digit_char (n div 10), digit_char n]" by simp
  moreover have "(4::nat) = Suc (Suc (Suc (Suc 0)))" by simp
  ultimately show "zpad 4 n = [digit_char (n div 10 div 10 div 10), digit_char (n div 10 div 10),
               digit_char (n div 10), digit_char n]"
    by (simp only:)
qed

lemma digits_zpad: "c \<in> set (zpad w n) \<Longrightarrow> is_digit c"
  by (induction w arbitrary: n) (auto simp: is_digit_digit_char)






lemma sqlize_PStr: "sqlize fs (PStr s) = [quote] @ replace_quote s @ [quote]"
  by (simp add: sqlize_def sqlize_rebind_def)

lemma sqlize_PDate: "sqlize fs (PDate d) = [quote] @ strftime_date d @ [quote]"
  by (simp add: sqlize_def sqlize_rebind_def)




lemma sqlize_PFloat: "sqlize fs (PFloat x) = fs x"
  by (simp add: sqlize_def sqlize_rebind_def)

lemma sqlize_PNone: "sqlize fs PNone = ''None''"
  by (simp add: sqlize_def sqlize_rebind_def)








section \<open>Properties of the backend and of the store\<close>

lemma sql_text_Cons: "c \<noteq> quote \<Longrightarrow> xs \<noteq> [] \<Longrightarrow> sql_text (c # xs) = map_option ((#) c) (sql_text xs)"
  by (cases xs) simp_all

lemma replace_quote_Cons:
  "replace_quote (c # s) = (if c = quote then [quote, quote] else [c]) @ replace_quote s"
  by (simp add: replace_quote_def)

lemma sql_text_replace_quote: "sql_text (replace_quote s @ [quote]) = Some s"
proof (induction s)
  case Nil
  show ?case by (simp add: replace_quote_def)
next
  case (Cons c s)
  show ?case
  proof (cases "c = quote")
    case True
    then show ?thesis using Cons.IH by (simp add: replace_quote_Cons)
  next
    case False
    then show ?thesis using Cons.IH by (simp add: replace_quote_Cons sql_text_Cons)
  qed
qed

lemma replace_quote_id: "quote \<notin> set s \<Longrightarrow> replace_quote s = s"
  by (induction s) (auto simp: replace_quote_Cons replace_quote_def)

lemma sql_text_plain: "quote \<notin> set s \<Longrightarrow> sql_text (s @ [quote]) = Some s"
  using sql_text_replace_quote [of s] by (simp add: replace_quote_id)

lemma quote_notin_strftime_date: "quote \<notin> set (strftime_date d)"
  using quote_not_digit digits_zpad by (auto simp: strftime_date_def quote_def)

lemma sql_literal_PStr: "sql_literal rd (sqlize fs (PStr s)) = Some (SText s)"
  by (simp add: sqlize_PStr sql_literal_def sql_text_replace_quote)

lemma sql_literal_PDate: "sql_literal rd (sqlize fs (PDate d)) = Some (SText (strftime_date d))"
  by (simp add: sqlize_PDate sql_literal_def sql_text_plain quote_notin_strftime_date)

lemma sql_literal_None: "sql_literal rd ''None'' = None"
  by (simp add: sql_literal_def quote_def)

lemma sqlize_PStr_not_None: "sqlize fs (PStr s) \<noteq> ''None''"
  by (simp add: sqlize_PStr quote_def)

lemma sqlize_PDate_not_None: "sqlize fs (PDate d) \<noteq> ''None''"
  by (simp add: sqlize_PDate quote_def)


text \<open>Under this reading of the guard an observation with a missing field is skipped
  without an error and the database stays as it was.\<close>

lemma write_skips_None:
  assumes "Date self = None \<or> Item self = None \<or> Price self = None
             \<or> Category self = None \<or> State self = None \<or> City self = None"
  shows "write fs rd now self d = (d, None)"
proof -
  have "''None'' \<in> set (map (sqlize fs)
          [py_opt PDate (Date self), py_opt PStr (Item self), py_opt PFloat (Price self),
           py_opt PStr (Category self), py_opt PStr (State self), py_opt PStr (City self)])"
    using assms by (auto simp: py_opt_def sqlize_PNone)
  then show ?thesis by (simp add: write_def Let_def)
qed

lemma write_all_fields:
  assumes f: "Date self = Some dt" "Item self = Some it" "Price self = Some pr"
      "Category self = Some ca" "State self = Some st" "City self = Some ci"
    and rt: "sql_literal rd (fs pr) = Some (SNum pr)"
  shows "write fs rd now self (Some rows) =
           (Some (rows @ [\<lparr>col_Date = SText (strftime_date dt), col_Item = SText it,
                            col_Price = SNum pr, col_Category = SText ca, col_State = SText st,
                            col_City = SText ci, col_AddedOn = now\<rparr>]), None)"
proof -
  have "fs pr \<noteq> ''None''"
    using rt sql_literal_None [of rd] by auto
  then have guard: "''None'' \<notin> set (map (sqlize fs)
          [py_opt PDate (Date self), py_opt PStr (Item self), py_opt PFloat (Price self),
           py_opt PStr (Category self), py_opt PStr (State self), py_opt PStr (City self)])"
    using sqlize_PStr_not_None [of fs] sqlize_PDate_not_None [of fs]
    by (simp add: f py_opt_def sqlize_PFloat) metis
  show ?thesis
    unfolding write_def Let_def using guard
    by (simp add: f py_opt_def exec_insert_def sql_literal_PStr sql_literal_PDate sqlize_PFloat rt)
qed

lemma write_appends:
  "write fs rd now self (Some rows) = (d', e) \<Longrightarrow>
     d' = Some rows \<or> (\<exists>r. d' = Some (rows @ [r]) \<and> col_AddedOn r = now)"
  by (auto simp: write_def Let_def exec_insert_def
      split: if_splits option.splits list.splits)





lemma delete_limit_subseq: "subseq (delete_limit n P rs) rs"
  by (induction rs arbitrary: n) auto



lemma set_delete_limit: "set (delete_limit n P rs) \<subseteq> set rs"
  by (induction rs arbitrary: n) auto

lemma sorted_delete_limit:
  "sorted (map f rs) \<Longrightarrow> sorted (map f (delete_limit n P rs))"
proof (induction rs arbitrary: n)
  case Nil
  show ?case by simp
next
  case (Cons r rs)
  from Cons.prems have tl: "sorted (map f rs)" and hd: "\<forall>x\<in>set rs. f r \<le> f x"
    by simp_all
  have "\<forall>x\<in>set (delete_limit n P rs). f r \<le> f x"
    using hd set_delete_limit [of n P rs] by blast
  with Cons.IH [OF tl] show ?case by simp
qed

lemma added_on_write:
  "added_on (fst (write fs rd now self d)) = added_on d
   \<or> added_on (fst (write fs rd now self d)) = added_on d @ [now]"
  by (auto simp: write_def Let_def exec_insert_def added_on_def
      split: if_splits option.splits list.splits)

lemma added_on_delete_matching:
  "sorted (added_on d) \<Longrightarrow> sorted (added_on (fst (delete_matching fs rd n kwargs d)))"
  by (auto simp: delete_matching_def exec_delete_def added_on_def sorted_delete_limit
      split: option.splits)

lemma set_added_on_delete_matching:
  "set (added_on (fst (delete_matching fs rd n kwargs d))) \<subseteq> set (added_on d)"
proof -
  have "\<And>n P rs. col_AddedOn ` set (delete_limit n P rs) \<subseteq> col_AddedOn ` set rs"
    using set_delete_limit by (rule image_mono)
  then show ?thesis
    by (simp add: delete_matching_def exec_delete_def added_on_def split: option.splits)
qed

lemma added_on_create_table:
  "\<exists>k. added_on (fst (create_table V today z now d)) = replicate k now"
proof (cases "get_test_data V today z")
  case (Inl e)
  then have "added_on (fst (create_table V today z now d)) = replicate 0 now"
    by (simp add: create_table_def added_on_def)
  then show ?thesis ..
next
  case (Inr df)
  then have "added_on (fst (create_table V today z now d)) = replicate (length df) now"
    by (simp add: create_table_def added_on_def to_sql_row_def o_def map_replicate_const)
  then show ?thesis ..
qed

lemma step_stamps:
  assumes "sorted (added_on d)" and "\<forall>t\<in>set (added_on d). t \<le> now"
  shows "sorted (added_on (step fs rd now c d))
         \<and> (\<forall>t\<in>set (added_on (step fs rd now c d)). t \<le> now)"
proof (cases c)
  case (Write self)
  with assms added_on_write [of fs rd now self d] show ?thesis
    by (auto simp: sorted_append)
next
  case (Delete_matching n kwargs)
  with assms added_on_delete_matching [of d fs rd n kwargs]
    set_added_on_delete_matching [of fs rd n kwargs d]
  show ?thesis by auto
next
  case (Create_table V today z)
  with added_on_create_table [of V today z now d] show ?thesis
    by (auto simp: sorted_replicate)
qed

lemma run_stamps:
  assumes "sorted (map fst calls)" and "sorted (added_on d)"
    and "\<forall>t\<in>set (added_on d). \<forall>c\<in>set calls. t \<le> fst c"
  shows "sorted (added_on (run fs rd calls d))"
  using assms
proof (induction calls arbitrary: d)
  case Nil
  then show ?case by simp
next
  case (Cons c calls)
  from Cons.prems have now: "\<forall>t\<in>set (added_on d). t \<le> fst c" by simp
  from step_stamps [OF Cons.prems(2) now]
  have s: "sorted (added_on (step fs rd (fst c) (snd c) d))"
    and b: "\<forall>t\<in>set (added_on (step fs rd (fst c) (snd c) d)). t \<le> fst c" by simp_all
  from Cons.prems(1) have mono: "\<forall>c'\<in>set calls. fst c \<le> fst c'" and tl: "sorted (map fst calls)"
    by simp_all
  have "\<forall>t\<in>set (added_on (step fs rd (fst c) (snd c) d)). \<forall>c'\<in>set calls. t \<le> fst c'"
    using b mono by (meson order_trans)
  from Cons.IH [OF tl s this] show ?case by simp
qed

section \<open>Properties of the synthetic data\<close>

lemma length_days_until: "length (days_until n d) = n"
  by (induction n arbitrary: d) simp_all

lemma length_date_range: "length (date_range d n) = n"
  by (simp add: date_range_def length_days_until)

lemma length_combos: "length (combos V today) = synthetic_cardinality V"
  by (simp add: combos_def synthetic_cardinality_def Let_def length_concat o_def
      length_date_range sum_list_const_mult sum_list_mult_const sum_list_triv)


lemma combos_vocab:
  assumes "s \<in> set (combos V today)"
  shows "(\<exists>ci\<in>set (category_item_map V). df_Category s = fst ci \<and> df_Item s \<in> set (snd ci))
       \<and> (\<exists>sc\<in>set (state_city_map V). df_State s = fst sc \<and> df_City s \<in> set (snd sc))
       \<and> df_Date s \<in> set (date_range today 10)"
  using assms by (auto simp: combos_def Let_def) force+

lemma combos_priced:
  assumes "vocab_complete V" and "s \<in> set (combos V today)"
  shows "\<exists>p ms. map_of (item_base_price V) (df_Item s) = Some p
           \<and> map_of (state_price_mu_std V) (df_State s) = Some ms"
proof -
  from combos_vocab [OF assms(2)] assms(1)
  have "df_Item s \<in> fst ` set (item_base_price V)"
    by (fastforce simp: vocab_complete_def list_all_iff)
  then have p: "map_of (item_base_price V) (df_Item s) \<noteq> None"
    by (simp add: map_of_eq_None_iff)
  from combos_vocab [OF assms(2)]
  obtain sc where sc: "sc \<in> set (state_city_map V)" "df_State s = fst sc" by blast
  from assms(1) sc(1) have "fst sc \<in> fst ` set (state_price_mu_std V)"
    by (simp add: vocab_complete_def list_all_iff)
  with sc(2) have "df_State s \<in> fst ` set (state_price_mu_std V)" by simp
  then have "map_of (state_price_mu_std V) (df_State s) \<noteq> None"
    by (simp add: map_of_eq_None_iff)
  with p show ?thesis by auto
qed

lemma df_apply_map: "(\<And>x. x \<in> set xs \<Longrightarrow> f x = Inr (g x)) \<Longrightarrow> df_apply f xs = Inr (map g xs)"
  by (induction xs) simp_all

lemma df_apply_length: "df_apply f xs = Inr ys \<Longrightarrow> length ys = length xs"
  by (induction xs arbitrary: ys) (auto split: sum.splits)

lemma get_test_data_complete:
  assumes "vocab_complete V"
  shows "get_test_data V today z =
           Inr (map (\<lambda>si. with_price (fst si) (price_model V z (fst si) (snd si)))
                  (zip (combos V today) [0..<length (combos V today)]))"
proof -
  define g1 where "g1 s = with_price s (the (map_of (item_base_price V) (df_Item s)))" for s
  define g2 where
    "g2 r = r\<lparr>df_Price := df_Price r * fst (the (map_of (state_price_mu_std V) (df_State r)))\<rparr>"
    for r :: df_row
  define g3 where
    "g3 ri = (fst ri)\<lparr>df_Price := gauss (z (snd ri)) (df_Price (fst ri))
                (df_Price (fst ri) * snd (the (map_of (state_price_mu_std V) (df_State (fst ri)))))\<rparr>"
    for ri :: "df_row \<times> nat"
  let ?cs = "combos V today"
  have p1: "df_apply (\<lambda>s. case subscript (item_base_price V) (df_Item s) of
                            Inl e \<Rightarrow> Inl e | Inr p \<Rightarrow> Inr (with_price s p)) ?cs
              = Inr (map g1 ?cs)"
  proof (rule df_apply_map)
    fix s assume "s \<in> set ?cs"
    from combos_priced [OF assms this]
    show "(case subscript (item_base_price V) (df_Item s) of
             Inl e \<Rightarrow> Inl e | Inr p \<Rightarrow> Inr (with_price s p)) = Inr (g1 s)"
      by (auto simp: subscript_def g1_def)
  qed
  have st1: "df_State (g1 s) = df_State s" for s
    by (simp add: g1_def with_price_def)
  have p2: "df_apply (\<lambda>s. case subscript (state_price_mu_std V) (df_State s) of
                            Inl e \<Rightarrow> Inl e
                          | Inr ms \<Rightarrow> Inr (s\<lparr>df_Price := df_Price s * fst ms\<rparr>)) (map g1 ?cs)
              = Inr (map g2 (map g1 ?cs))"
  proof (rule df_apply_map)
    fix r assume "r \<in> set (map g1 ?cs)"
    then obtain s where s: "s \<in> set ?cs" and r: "r = g1 s" by auto
    from combos_priced [OF assms s]
    show "(case subscript (state_price_mu_std V) (df_State r) of
             Inl e \<Rightarrow> Inl e | Inr ms \<Rightarrow> Inr (r\<lparr>df_Price := df_Price r * fst ms\<rparr>)) = Inr (g2 r)"
      by (auto simp: subscript_def g2_def r st1)
  qed
  let ?df2 = "map g2 (map g1 ?cs)"
  have st2: "df_State (g2 (g1 s)) = df_State s" for s
    by (simp add: g2_def st1)
  have p3: "df_apply (\<lambda>si. case subscript (state_price_mu_std V) (df_State (fst si)) of
                          Inl e \<Rightarrow> Inl e
                        | Inr ms \<Rightarrow>
                            Inr ((fst si)\<lparr>df_Price :=
                                   gauss (z (snd si)) (df_Price (fst si))
                                     (df_Price (fst si) * snd ms)\<rparr>))
              (zip ?df2 [0..<length ?df2])
              = Inr (map g3 (zip ?df2 [0..<length ?df2]))"
  proof (rule df_apply_map)
    fix ri assume "ri \<in> set (zip ?df2 [0..<length ?df2])"
    then have "fst ri \<in> set ?df2" by (metis prod.collapse set_zip_leftD)
    then obtain s where s: "s \<in> set ?cs" and r: "fst ri = g2 (g1 s)" by auto
    from combos_priced [OF assms s]
    show "(case subscript (state_price_mu_std V) (df_State (fst ri)) of
             Inl e \<Rightarrow> Inl e
           | Inr ms \<Rightarrow> Inr ((fst ri)\<lparr>df_Price := gauss (z (snd ri)) (df_Price (fst ri))
                                     (df_Price (fst ri) * snd ms)\<rparr>)) = Inr (g3 ri)"
      by (auto simp: subscript_def g3_def r st2)
  qed
  have final: "map g3 (zip ?df2 [0..<length ?df2])
      = map (\<lambda>si. with_price (fst si) (price_model V z (fst si) (snd si)))
          (zip ?cs [0..<length ?cs])"
  proof -
    have z: "zip ?df2 [0..<length ?df2] = map (\<lambda>si. (g2 (g1 (fst si)), snd si)) (zip ?cs [0..<length ?cs])"
      by (simp add: zip_map1 case_prod_unfold o_def)
    have "g3 (g2 (g1 s), i) = with_price s (price_model V z s i)" if "s \<in> set ?cs" for s i
      using combos_priced [OF assms that]
      by (auto simp: g3_def g2_def g1_def with_price_def price_model_def)
    then show ?thesis
      unfolding z by (auto simp: o_def dest: set_zip_leftD)
  qed
  show ?thesis
    unfolding get_test_data_def by (simp only: p1 p2 p3 final sum.case)
qed

section \<open>The claims about the store\<close>

lemma example_literal:
  "sql_literal example_read_number (example_float_str 3.99) = Some (SNum 3.99)"
  by (simp add: sql_literal_def example_read_number_def example_float_str_def quote_def)

lemma example_iso: "strftime_date example_day = ''2024-01-15''"
  by (simp add: strftime_date_def example_day_def zpad_unfold digit_char_def)



text \<open>
  Claim C9. \<^verbatim>\<open>table_df\<close> returns the stored rows, each once, in the reverse of the
  order of the table; and the order of the table is the order of insertion: \<^verbatim>\<open>write\<close>
  stores a new row last, so that it is fetched first, and \<^verbatim>\<open>delete_matching\<close> leaves
  the remaining rows in their order.
\<close>

theorem table_df_newest_first:
  "table_df (Some rows) = Inr (rev rows)
   \<and> mset (rev rows) = mset rows
   \<and> (write fs rd now self (Some rows) = (d', e) \<longrightarrow>
        d' = Some rows \<or> (\<exists>r. d' = Some (rows @ [r]) \<and> table_df d' = Inr (r # rev rows)))
   \<and> (delete_matching fs rd n kwargs (Some rows) = (d'', e') \<longrightarrow>
        (\<exists>rows'. d'' = Some rows' \<and> subseq rows' rows))"
proof -
  have "d' = Some rows \<or> (\<exists>r. d' = Some (rows @ [r]) \<and> table_df d' = Inr (r # rev rows))"
    if "write fs rd now self (Some rows) = (d', e)"
    using write_appends [OF that] by (auto simp: table_df_def)
  moreover have "\<exists>rows'. d'' = Some rows' \<and> subseq rows' rows"
    if "delete_matching fs rd n kwargs (Some rows) = (d'', e')"
    using that delete_limit_subseq
    by (auto simp: delete_matching_def exec_delete_def split: if_splits option.splits)
  ultimately show ?thesis by (simp add: table_df_def)
qed

lemma example_write:
  "write example_float_str example_read_number 9 example_observation (Some [example_row])
     = (Some [example_row, example_row\<lparr>col_AddedOn := 9\<rparr>], None)"
proof -
  have "write example_float_str example_read_number 9 example_observation (Some [example_row]) =
           (Some ([example_row] @ [\<lparr>col_Date = SText (strftime_date example_day),
              col_Item = SText ''Dozen eggs'', col_Price = SNum 3.99, col_Category = SText ''Food'',
              col_State = SText ''Texas'', col_City = SText ''Dallas'', col_AddedOn = 9\<rparr>]), None)"
    by (rule write_all_fields [where fs = example_float_str and rd = example_read_number,
          OF _ _ _ _ _ _ example_literal])
      (simp_all add: example_observation_def)
  then show ?thesis by (simp add: example_iso example_row_def)
qed

theorem table_df_newest_first_witness:
  "write example_float_str example_read_number 9 example_observation (Some [example_row])
     = (Some [example_row, example_row\<lparr>col_AddedOn := 9\<rparr>], None)
   \<and> table_df (Some [example_row, example_row\<lparr>col_AddedOn := 9\<rparr>])
       = Inr [example_row\<lparr>col_AddedOn := 9\<rparr>, example_row]"
  using table_df_newest_first [of "[example_row, example_row\<lparr>col_AddedOn := 9\<rparr>]"
      example_float_str example_read_number 9 example_observation None None 1 "[]" None None]
    example_write
  by simp

text \<open>
  Claim C10. \<^verbatim>\<open>delete_matching\<close> without any filter field raises the error of the
  backend for the statement \<^verbatim>\<open>... WHERE  LIMIT n\<close> and leaves the table as it was.
\<close>

theorem delete_matching_no_filter:
  "delete_matching fs rd n [] d = (d, Some (OperationalError SyntaxError))"
  by (simp add: delete_matching_def exec_delete_def)





text \<open>
  Claim C7. \<^verbatim>\<open>AddedOn\<close> is assigned by the store: the attribute \<^verbatim>\<open>AddedOn\<close> of the
  caller's object has no influence on \<^verbatim>\<open>write\<close>, whose statement names six columns, and a
  row that \<^verbatim>\<open>write\<close> stores carries the clock reading of the insert. When the clock
  readings of successive calls do not decrease, the values of \<^verbatim>\<open>AddedOn\<close> do not
  decrease along the table, that is in insertion order, after any sequence of calls of
  \<^verbatim>\<open>write\<close>, \<^verbatim>\<open>delete_matching\<close> and \<^verbatim>\<open>create_table\<close>.
\<close>

theorem added_on_store_assigned:
  assumes "sorted (map fst calls)" and "sorted (added_on d)"
    and "\<forall>t\<in>set (added_on d). \<forall>c\<in>set calls. t \<le> fst c"
  shows "write fs rd now (self\<lparr>AddedOn := a\<rparr>) d0 = write fs rd now self d0
         \<and> (\<exists>rows'. fst (write fs rd now self (Some rows)) = Some rows'
               \<and> (rows' = rows \<or> (\<exists>r. rows' = rows @ [r] \<and> col_AddedOn r = now)))
         \<and> sorted (added_on (run fs rd calls d))"
proof -
  have "write fs rd now (self\<lparr>AddedOn := a\<rparr>) d0 = write fs rd now self d0"
    by (simp add: write_def)
  moreover have "\<exists>rows'. fst (write fs rd now self (Some rows)) = Some rows'
               \<and> (rows' = rows \<or> (\<exists>r. rows' = rows @ [r] \<and> col_AddedOn r = now))"
    using write_appends [of fs rd now self rows "fst (write fs rd now self (Some rows))"
        "snd (write fs rd now self (Some rows))"]
    by auto
  ultimately show ?thesis
    using run_stamps [OF assms] by simp
qed

theorem added_on_store_assigned_witness:
  "sorted (map fst [(9::nat, Write example_observation), (9, Write example_observation),
                    (12, Write example_observation)])
   \<and> sorted (added_on (Some [example_row]))
   \<and> added_on (Some [example_row]) = [7]
   \<and> sorted (added_on (run example_float_str example_read_number
        [(9, Write example_observation), (9, Write example_observation),
         (12, Write example_observation)] (Some [example_row])))"
proof -
  let ?calls = "[(9::nat, Write example_observation), (9, Write example_observation),
                    (12, Write example_observation)]"
  have s: "sorted (map fst ?calls)" by simp
  have a: "added_on (Some [example_row]) = [7]"
    by (simp add: added_on_def example_row_def)
  have s0: "sorted (added_on (Some [example_row]))" by (simp add: a)
  have b: "\<forall>t\<in>set (added_on (Some [example_row])). \<forall>c\<in>set ?calls. t \<le> fst c"
    by (simp add: a)
  from added_on_store_assigned [OF s s0 b, of example_float_str example_read_number]
  have "sorted (added_on (run example_float_str example_read_number ?calls (Some [example_row])))"
    by blast
  with s a s0 show ?thesis by (intro conjI)
qed

section \<open>The claims about the synthetic data\<close>

lemma combo_of_with_price: "combo_of (with_price s p) = s"
  by (simp add: combo_of_def with_price_def)

lemma df_Price_with_price: "df_Price (with_price s p) = p"
  by (simp add: with_price_def)

lemma df_keys_with_price:
  "df_Item (with_price s p) = df_Item s" "df_State (with_price s p) = df_State s"
  by (simp_all add: with_price_def)

lemma price_model_sign:
  assumes "map_of (item_base_price V) (df_Item s) = Some p"
    and "map_of (state_price_mu_std V) (df_State s) = Some (mu, sd)"
    and "0 < p" and "0 < mu"
  shows "(0 < price_model V z s i) = (0 < 1 + z i * sd)"
proof -
  have "price_model V z s i = gauss (z i) (p * mu) (p * mu * sd)"
    using assms(1,2) by (simp add: price_model_def)
  also have "\<dots> = (p * mu) * (1 + z i * sd)"
    by (simp add: gauss_def distrib_left mult.commute mult.left_commute)
  finally have eq: "price_model V z s i = (p * mu) * (1 + z i * sd)" .
  have pm: "0 < p * mu" using assms(3,4) by (rule mult_pos_pos)
  show ?thesis
  proof
    assume "0 < price_model V z s i"
    then have "0 < (p * mu) * (1 + z i * sd)" by (simp only: eq)
    then show "0 < 1 + z i * sd" using pm by (rule zero_less_mult_pos)
  next
    assume "0 < 1 + z i * sd"
    with pm have "0 < (p * mu) * (1 + z i * sd)" by (rule mult_pos_pos)
    then show "0 < price_model V z s i" by (simp only: eq)
  qed
qed

lemma Observation_vocab_complete: "vocab_complete Observation_vocab"
  by (simp add: vocab_complete_def Observation_vocab_def)

lemma Observation_vocab_cardinality: "synthetic_cardinality Observation_vocab = 750"
  by (simp add: synthetic_cardinality_def Observation_vocab_def)

lemma fixture_vocab_complete: "vocab_complete fixture_vocab"
  by (simp add: vocab_complete_def fixture_vocab_def)

lemma fixture_vocab_cardinality: "synthetic_cardinality fixture_vocab = 50"
  by (simp add: synthetic_cardinality_def fixture_vocab_def)

text \<open>
  Claim C4, as amended: for a vocabulary in which every item has a base price and every
  state a scale, and that has at least one combination, \<^verbatim>\<open>get_test_data\<close> returns
  \<open>(\<Sum> items) \<times> (\<Sum> cities) \<times> 10 \<times> 5\<close> records, one for each combination of category, item,
  state, city, day of the window and replica, in this order; the price of record \<open>i\<close> is
  the price model at the variate \<open>z i\<close>, and, for a positive base price and scale mean, it
  is positive exactly when \<open>1 + z i \<times> std\<close> is.
\<close>

theorem get_test_data_cardinality:
  assumes "vocab_complete V" and "0 < synthetic_cardinality V"
  shows "\<exists>df. get_test_data V today z = Inr df
           \<and> length df = synthetic_cardinality V
           \<and> map combo_of df = combos V today
           \<and> (\<forall>i<length df. df_Price (df ! i) = price_model V z (combos V today ! i) i)
           \<and> (\<forall>i<length df. \<forall>p mu sd.
                 map_of (item_base_price V) (df_Item (df ! i)) = Some p \<longrightarrow>
                 map_of (state_price_mu_std V) (df_State (df ! i)) = Some (mu, sd) \<longrightarrow>
                 0 < p \<longrightarrow> 0 < mu \<longrightarrow>
                 (0 < df_Price (df ! i)) = (0 < 1 + z i * sd))"
proof -
  let ?cs = "combos V today"
  let ?df = "map (\<lambda>si. with_price (fst si) (price_model V z (fst si) (snd si)))
               (zip ?cs [0..<length ?cs])"
  have eq: "get_test_data V today z = Inr ?df"
    using assms(1) by (rule get_test_data_complete)
  have len: "length ?df = synthetic_cardinality V"
    by (simp add: length_combos)
  have cmb: "map combo_of ?df = ?cs"
    by (simp add: o_def combo_of_with_price map_fst_zip [unfolded o_def])
  have nth: "?df ! i = with_price (?cs ! i) (price_model V z (?cs ! i) i)" if "i < length ?df" for i
    using that by simp
  have pr: "\<forall>i<length ?df. df_Price (?df ! i) = price_model V z (?cs ! i) i"
    using nth by (simp add: df_Price_with_price)
  have pos: "\<forall>i<length ?df. \<forall>p mu sd.
                 map_of (item_base_price V) (df_Item (?df ! i)) = Some p \<longrightarrow>
                 map_of (state_price_mu_std V) (df_State (?df ! i)) = Some (mu, sd) \<longrightarrow>
                 0 < p \<longrightarrow> 0 < mu \<longrightarrow>
                 (0 < df_Price (?df ! i)) = (0 < 1 + z i * sd)"
  proof (intro allI impI)
    fix i p mu sd
    assume i: "i < length ?df"
      and p: "map_of (item_base_price V) (df_Item (?df ! i)) = Some p"
      and m: "map_of (state_price_mu_std V) (df_State (?df ! i)) = Some (mu, sd)"
      and "0 < p" "0 < mu"
    from p m have "map_of (item_base_price V) (df_Item (?cs ! i)) = Some p"
      and "map_of (state_price_mu_std V) (df_State (?cs ! i)) = Some (mu, sd)"
      by (simp_all only: nth [OF i] df_keys_with_price)
    from price_model_sign [OF this \<open>0 < p\<close> \<open>0 < mu\<close>]
    show "(0 < df_Price (?df ! i)) = (0 < 1 + z i * sd)"
      by (simp only: nth [OF i] df_Price_with_price)
  qed
  show ?thesis
    by (rule exI [of _ ?df]) (intro conjI eq len cmb pr pos)
qed

theorem get_test_data_cardinality_witness:
  "vocab_complete Observation_vocab
   \<and> 0 < synthetic_cardinality Observation_vocab
   \<and> (\<exists>df. get_test_data Observation_vocab example_day low_draws = Inr df \<and> length df = 750)"
proof -
  have pos: "0 < synthetic_cardinality Observation_vocab"
    by (simp add: Observation_vocab_cardinality)
  from get_test_data_cardinality [OF Observation_vocab_complete pos, of example_day low_draws]
  obtain df where "get_test_data Observation_vocab example_day low_draws = Inr df"
    and "length df = synthetic_cardinality Observation_vocab"
    by (elim exE conjE)
  then have "\<exists>df. get_test_data Observation_vocab example_day low_draws = Inr df \<and> length df = 750"
    by (simp add: Observation_vocab_cardinality)
  with Observation_vocab_complete pos show ?thesis by (intro conjI)
qed

lemma date_range_last: "midnight d \<in> set (date_range d (Suc n))"
  by (simp add: date_range_def)

lemma combos_member:
  assumes "(c, items) \<in> set (category_item_map V)" and "item \<in> set items"
    and "(st, cities) \<in> set (state_city_map V)" and "city \<in> set cities"
    and "dt \<in> set (date_range today 10)"
  shows "\<lparr>df_Date = dt, df_Category = c, df_Item = item, df_State = st, df_City = city\<rparr>
           \<in> set (combos V today)"
  apply (simp add: combos_def Let_def)
  apply (rule bexI [OF _ assms(1)])
  apply simp
  apply (rule bexI [OF _ assms(2)])
  apply (rule bexI [OF _ assms(3)])
  apply simp
  apply (rule bexI [OF _ assms(4)])
  apply (rule bexI [OF _ assms(5)])
  apply (simp add: image_iff)
  apply (rule exI [of _ 0])
  apply simp
  done

lemma map_const_replicate: "(\<And>x. x \<in> set xs \<Longrightarrow> f x = c) \<Longrightarrow> map f xs = replicate (length xs) c"
  by (induction xs) simp_all

text \<open>The claim as it is stated fails in its last part: a Gaussian draw can be negative.
  With the vocabulary of the class and the variate \<open>-5\<close>, every record of the state New York
  (mean 1.75, deviation 0.25) for the eggs (base price 2.99) has the price
  \<open>2.99 \<times> 1.75 \<times> (1 - 5 \<times> 0.25) = -1.308125\<close>.\<close>

theorem get_test_data_negative_price_counterexample:
  "- (2093 / 1600) \<in> set (prices (get_test_data Observation_vocab example_day low_draws))"
proof -
  let ?V = Observation_vocab
  let ?cs = "combos ?V example_day"
  let ?s = "\<lparr>df_Date = midnight example_day, df_Category = ''Food'',
             df_Item = ''USDA Grade-A eggs, Dozen'', df_State = ''New York'',
             df_City = ''New York City''\<rparr>"
  have ten: "(10::nat) = Suc 9" by simp
  have "midnight example_day \<in> set (date_range example_day 10)"
    unfolding ten by (rule date_range_last)
  then have "?s \<in> set ?cs"
    by (rule combos_member [where items = "[''USDA Grade-A eggs, Dozen'']"
          and cities = "[''New York City'']", rotated 4])
      (simp_all add: Observation_vocab_def)
  then obtain i where i: "i < length ?cs" and s: "?cs ! i = ?s"
    by (auto simp: in_set_conv_nth)
  have pm: "price_model ?V low_draws ?s i = - (2093 / 1600)"
    by (simp add: price_model_def Observation_vocab_def gauss_def low_draws_def)
  have eq: "get_test_data ?V example_day low_draws =
      Inr (map (\<lambda>si. with_price (fst si) (price_model ?V low_draws (fst si) (snd si)))
             (zip ?cs [0..<length ?cs]))"
    using Observation_vocab_complete by (rule get_test_data_complete)
  have "(?s, i) \<in> set (zip ?cs [0..<length ?cs])"
    using i s by (auto simp: in_set_zip intro!: exI [of _ i])
  then have "df_Price (with_price ?s (price_model ?V low_draws ?s i))
      \<in> set (prices (get_test_data ?V example_day low_draws))"
    unfolding eq prices_def by (force simp: image_iff)
  then show ?thesis by (simp only: df_Price_with_price pm)
qed

text \<open>
  Claim C5. With the fixture vocabulary (category map \<^verbatim>\<open>{"Food": ["Eggs"]}\<close>, state map
  \<^verbatim>\<open>{"Texas": ["Dallas"]}\<close>, base price 3.00, scale \<open>(1.0, 0.0)\<close>) \<^verbatim>\<open>get_test_data\<close> returns
  \<open>1 \<times> 1 \<times> 10 \<times> 5 = 50\<close> records and every price is 3.00, whatever the variates are: a draw
  with deviation zero returns its mean, and the mean is the base price times the scale
  mean.
\<close>

theorem fixture_prices_exact:
  "synthetic_cardinality fixture_vocab = 1 * 1 * 10 * 5
   \<and> gauss x mu 0 = mu
   \<and> (\<exists>df. get_test_data fixture_vocab today z = Inr df
         \<and> length df = 50
         \<and> map df_Price df = replicate 50 3)"
proof -
  let ?cs = "combos fixture_vocab today"
  let ?f = "\<lambda>si. with_price (fst si) (price_model fixture_vocab z (fst si) (snd si))"
  let ?df = "map ?f (zip ?cs [0..<length ?cs])"
  have eq: "get_test_data fixture_vocab today z = Inr ?df"
    using fixture_vocab_complete by (rule get_test_data_complete)
  have len: "length ?df = 50"
    by (simp add: length_combos fixture_vocab_cardinality)
  have price: "df_Price (?f si) = 3" if "si \<in> set (zip ?cs [0..<length ?cs])" for si
  proof -
    from that have "fst si \<in> set ?cs" by (metis prod.collapse set_zip_leftD)
    from combos_vocab [OF this]
    have "df_Item (fst si) = ''Eggs''" and "df_State (fst si) = ''Texas''"
      by (auto simp: fixture_vocab_def)
    then show ?thesis
      by (simp add: df_Price_with_price price_model_def fixture_vocab_def gauss_def)
  qed
  have "map df_Price ?df = map (\<lambda>si. df_Price (?f si)) (zip ?cs [0..<length ?cs])"
    by (simp add: o_def)
  also have "\<dots> = replicate (length (zip ?cs [0..<length ?cs])) 3"
    using price by (rule map_const_replicate)
  also have "\<dots> = replicate 50 3"
    by (simp add: length_combos fixture_vocab_cardinality)
  finally have prices: "map df_Price ?df = replicate 50 3" .
  have "\<exists>df. get_test_data fixture_vocab today z = Inr df \<and> length df = 50
         \<and> map df_Price df = replicate 50 3"
    by (rule exI [of _ ?df]) (intro conjI eq len prices)
  then show ?thesis
    by (simp add: fixture_vocab_cardinality gauss_def)
qed

theorem fixture_prices_exact_witness:
  "\<exists>df. get_test_data fixture_vocab example_day low_draws = Inr df
         \<and> length df = 50
         \<and> map df_Price df = replicate 50 3"
  using fixture_prices_exact [of 0 0 example_day low_draws] by (elim conjE)

lemma combo_cells_to_sql_row:
  "combo_cells (to_sql_row now r) = combo_cells (to_sql_row 0 (with_price (combo_of r) 0))"
  by (simp add: combo_cells_def to_sql_row_def with_price_def combo_of_def)

lemma create_table_complete:
  assumes "vocab_complete V"
  shows "\<exists>rows. create_table V today z now d = (Some rows, None)
           \<and> length rows = synthetic_cardinality V
           \<and> map combo_cells rows
               = map (\<lambda>s. combo_cells (to_sql_row 0 (with_price s 0))) (combos V today)"
proof -
  have "0 \<le> synthetic_cardinality V" by simp
  have c: "\<exists>df. get_test_data V today z = Inr df \<and> length df = synthetic_cardinality V
      \<and> map combo_of df = combos V today"
  proof -
    let ?cs = "combos V today"
    let ?df = "map (\<lambda>si. with_price (fst si) (price_model V z (fst si) (snd si)))
                 (zip ?cs [0..<length ?cs])"
    have "get_test_data V today z = Inr ?df"
      using assms by (rule get_test_data_complete)
    moreover have "length ?df = synthetic_cardinality V"
      by (simp add: length_combos)
    moreover have "map combo_of ?df = ?cs"
      by (simp add: o_def combo_of_with_price map_fst_zip [unfolded o_def])
    ultimately show ?thesis by (intro exI [of _ ?df] conjI)
  qed
  then obtain df where df: "get_test_data V today z = Inr df"
    and len: "length df = synthetic_cardinality V" and cmb: "map combo_of df = combos V today"
    by (elim exE conjE)
  have "map combo_cells (map (to_sql_row now) df)
      = map (\<lambda>s. combo_cells (to_sql_row 0 (with_price s 0))) (map combo_of df)"
    by (simp add: o_def combo_cells_to_sql_row [of now])
  then have "map combo_cells (map (to_sql_row now) df)
      = map (\<lambda>s. combo_cells (to_sql_row 0 (with_price s 0))) (combos V today)"
    by (simp only: cmb)
  with df len show ?thesis
    by (simp add: create_table_def)
qed

text \<open>
  Claim C8. \<^verbatim>\<open>create_table\<close> succeeds from every state of the database, whether the
  table exists or not, and leaves a table that is not empty and has as many rows as
  \<^verbatim>\<open>get_test_data\<close> has records; \<^verbatim>\<open>table_df\<close> returns them all. A second call, on the
  table the first one left, with other variates and at another time, succeeds too and
  gives the same number of rows; on the same day the two tables agree in every cell that
  comes from the combinations, so that they differ in the prices (and in the time of the
  load) only.
\<close>

theorem create_table_idempotent:
  assumes "vocab_complete V" and "0 < synthetic_cardinality V"
  shows "\<exists>rows1 rows2 rows3.
           create_table V today z now d = (Some rows1, None)
           \<and> table_df (Some rows1) = Inr (rev rows1)
           \<and> rows1 \<noteq> []
           \<and> length (rev rows1) = synthetic_cardinality V
           \<and> create_table V today z' now' (Some rows1) = (Some rows2, None)
           \<and> length rows2 = length rows1
           \<and> map combo_cells rows2 = map combo_cells rows1
           \<and> create_table V today' z' now' (Some rows1) = (Some rows3, None)
           \<and> length rows3 = length rows1"
proof -
  from create_table_complete [OF assms(1), of today z now d]
  obtain rows1 where r1: "create_table V today z now d = (Some rows1, None)"
    and l1: "length rows1 = synthetic_cardinality V"
    and c1: "map combo_cells rows1
               = map (\<lambda>s. combo_cells (to_sql_row 0 (with_price s 0))) (combos V today)"
    by (elim exE conjE)
  from create_table_complete [OF assms(1), of today z' now' "Some rows1"]
  obtain rows2 where r2: "create_table V today z' now' (Some rows1) = (Some rows2, None)"
    and l2: "length rows2 = synthetic_cardinality V"
    and c2: "map combo_cells rows2
               = map (\<lambda>s. combo_cells (to_sql_row 0 (with_price s 0))) (combos V today)"
    by (elim exE conjE)
  from create_table_complete [OF assms(1), of today' z' now' "Some rows1"]
  obtain rows3 where r3: "create_table V today' z' now' (Some rows1) = (Some rows3, None)"
    and l3: "length rows3 = synthetic_cardinality V"
    by (elim exE conjE)
  have ne: "rows1 \<noteq> []" using l1 assms(2) by auto
  have f: "table_df (Some rows1) = Inr (rev rows1)" by (simp add: table_df_def)
  have l1': "length (rev rows1) = synthetic_cardinality V" using l1 by simp
  have l21: "length rows2 = length rows1" using l1 l2 by simp
  have l31: "length rows3 = length rows1" using l1 l3 by simp
  have c21: "map combo_cells rows2 = map combo_cells rows1" using c1 c2 by simp
  show ?thesis
    by (intro exI [of _ rows1] exI [of _ rows2] exI [of _ rows3] conjI r1 f ne l1' r2 l21 c21 r3 l31)
qed

theorem create_table_idempotent_witness:
  "vocab_complete Observation_vocab
   \<and> 0 < synthetic_cardinality Observation_vocab
   \<and> (\<exists>rows1 rows2.
         create_table Observation_vocab example_day low_draws 7 None = (Some rows1, None)
         \<and> length rows1 = 750
         \<and> create_table Observation_vocab example_day low_draws 9 (Some rows1) = (Some rows2, None)
         \<and> length rows2 = 750)"
proof -
  have pos: "0 < synthetic_cardinality Observation_vocab"
    by (simp add: Observation_vocab_cardinality)
  from create_table_idempotent [OF Observation_vocab_complete pos,
      of example_day low_draws 7 None low_draws 9 example_day]
  obtain rows1 rows2
    where r1: "create_table Observation_vocab example_day low_draws 7 None = (Some rows1, None)"
      and l1: "length (rev rows1) = synthetic_cardinality Observation_vocab"
      and r2: "create_table Observation_vocab example_day low_draws 9 (Some rows1)
                 = (Some rows2, None)"
      and l2: "length rows2 = length rows1"
    by (elim exE conjE)
  from l1 have l1': "length rows1 = 750" by (simp add: Observation_vocab_cardinality)
  with l2 have l2': "length rows2 = 750" by simp
  have "\<exists>rows1 rows2.
         create_table Observation_vocab example_day low_draws 7 None = (Some rows1, None)
         \<and> length rows1 = 750
         \<and> create_table Observation_vocab example_day low_draws 9 (Some rows1) = (Some rows2, None)
         \<and> length rows2 = 750"
    by (intro exI [of _ rows1] exI [of _ rows2] conjI r1 l1' r2 l2')
  with Observation_vocab_complete pos show ?thesis by (intro conjI)
qed

end
